theory Spec2Isabelle
  imports Complex_Main
begin

section \<open>Numbers\<close>

text \<open>
  JavaScript numbers are IEEE doubles. The scores this development computes with are
  the integers 0..100 (\<open>discipline_score\<close>, the six attributes) and the one-decimal
  values 0.0..100.0 (\<open>nova_score\<close>), multiplied by the two-digit constants of the
  controller; there the double product, rounded by \<open>Math.round\<close>, is the exactly
  rounded rational product. The model therefore computes in \<open>rat\<close>.

  \<open>Math.round(x)\<close> is the integer nearest to \<open>x\<close>, a tie going up.
\<close>

definition js_round :: "rat \<Rightarrow> int" where
  "js_round x = \<lfloor>x + 1 / 2\<rfloor>"

text \<open>\<open>null\<close> in an arithmetic expression is the number 0 (\<open>null + 5 === 5\<close>).\<close>

definition js_number :: "int option \<Rightarrow> int" where
  "js_number v = (case v of None \<Rightarrow> 0 | Some n \<Rightarrow> n)"

section \<open>Errors (middleware/errorHandler.js)\<close>

text \<open>
  \<open>AppError message statusCode\<close> is the controller's own exception. \<open>QueryError\<close> is
  the rejection of a store query by a failure of the connection and \<open>RedisError\<close> an
  exception of the Redis client; neither carries a \<open>statusCode\<close> or a PostgreSQL
  constraint code.
\<close>

datatype error = AppError string nat | QueryError | RedisError

text \<open>\<open>errorHandler\<close>: \<open>let statusCode = err.statusCode || 500\<close>.\<close>

definition statusCode :: "error \<Rightarrow> nat" where
  "statusCode err =
     (case err of
        AppError m s \<Rightarrow> (if s = 0 then 500 else s)
      | QueryError \<Rightarrow> 500
      | RedisError \<Rightarrow> 500)"

section \<open>Data model\<close>

text \<open>
  The columns \<open>SELECT id, nova_score, discipline_score FROM player_profiles\<close> reads.
  \<open>nova_score\<close> is \<open>DECIMAL(4,1)\<close> and \<open>discipline_score\<close> is \<open>INTEGER\<close>; both reach
  the controller as numbers, as in the spec's data model (how the driver hands over
  a \<open>DECIMAL\<close> is configured in \<open>config/database.js\<close>, which is not among the
  sources). The column \<open>id\<close> is the field \<open>player_id\<close>.
\<close>

record profile =
  player_id :: string
  nova_score :: rat
  discipline_score :: int

record performance_data =
  overall :: rat
  matchScore :: rat
  taskScore :: rat
  videoScore :: rat
  physicalScore :: rat

record work_rate_breakdown =
  attendance :: int
  taskCompletion :: int
  uploadFrequency :: int
  discipline :: int

record risk_factors =
  consistency :: string
  discipline_factor :: string
  engagement :: string

text \<open>
  The analytics object of \<open>calculatePlayerAnalytics\<close>; a row of
  \<open>agent_analytics_cache\<close> has the same columns. (\<open>risk_factors.discipline\<close> is the
  field \<open>discipline_factor\<close>: the name \<open>discipline\<close> is taken by the breakdown.)
\<close>

record analytics =
  performance_data :: performance_data
  consistency_score :: int
  consistency_level :: string
  consistency_trend :: string
  work_rate_score :: int
  work_rate_level :: string
  work_rate_breakdown :: work_rate_breakdown
  risk_score :: int
  risk_level :: string
  risk_factors :: risk_factors
  last_calculated_at :: nat

section \<open>The analytics object (calculatePlayerAnalytics, lines 333-360)\<close>

text \<open>\<open>now\<close> is the value of \<open>new Date()\<close>.\<close>

definition derive :: "nat \<Rightarrow> 'a profile_scheme \<Rightarrow> analytics" where
  "derive now player =
     \<lparr> performance_data =
         \<lparr> overall = nova_score player,
           matchScore = nova_score player * 0.45,
           taskScore = nova_score player * 0.25,
           videoScore = nova_score player * 0.15,
           physicalScore = nova_score player * 0.15 \<rparr>,
       consistency_score = js_round (nova_score player * 0.9),
       consistency_level =
         (if nova_score player \<ge> 80 then ''high''
          else if nova_score player \<ge> 60 then ''medium'' else ''low''),
       consistency_trend = ''stable'',
       work_rate_score = discipline_score player,
       work_rate_level =
         (if discipline_score player \<ge> 90 then ''elite''
          else if discipline_score player \<ge> 75 then ''high'' else ''medium''),
       work_rate_breakdown =
         \<lparr> attendance = js_round (of_int (discipline_score player) * 0.4),
           taskCompletion = js_round (of_int (discipline_score player) * 0.3),
           uploadFrequency = js_round (of_int (discipline_score player) * 0.2),
           discipline = js_round (of_int (discipline_score player) * 0.1) \<rparr>,
       risk_score = 100 - js_round (of_int (100 - discipline_score player) * 0.5),
       risk_level =
         (if discipline_score player \<ge> 80 then ''low''
          else if discipline_score player \<ge> 60 then ''medium'' else ''high''),
       risk_factors =
         \<lparr> consistency = (if nova_score player \<ge> 70 then ''low'' else ''medium''),
           discipline_factor = (if discipline_score player \<ge> 80 then ''low'' else ''medium''),
           engagement = ''medium'' \<rparr>,
       last_calculated_at = now \<rparr>"

section \<open>Fast cache (config/redis.js)\<close>

text \<open>
  The module state of \<open>config/redis.js\<close> and the Redis server behind it.
  \<open>redisClient\<close> is \<open>True\<close> when the module variable holds a client (is not \<open>null\<close>).
  \<open>get_rejects\<close> and \<open>setEx_rejects\<close> say whether the client's \<open>get\<close> and \<open>setEx\<close>
  throw (connection lost, timeout). \<open>entries\<close> maps a key to the value stored under
  it and the time (in seconds) at which it expires; a stored value is the JSON text
  of \<open>JSON.stringify\<close>, which \<open>JSON.parse\<close> reads back.
\<close>

record 'v redis =
  redisClient :: bool
  redisConnected :: bool
  get_rejects :: bool
  setEx_rejects :: bool
  entries :: "string \<rightharpoonup> 'v \<times> nat"

text \<open>The client's \<open>get(key)\<close> at time \<open>now\<close>: \<open>null\<close> for an absent or expired key.\<close>

definition redis_get :: "'v redis \<Rightarrow> nat \<Rightarrow> string \<Rightarrow> error + 'v option" where
  "redis_get r now key =
     (if get_rejects r then Inl RedisError
      else Inr (case entries r key of
                  None \<Rightarrow> None
                | Some (v, expires) \<Rightarrow> (if now < expires then Some v else None)))"

text \<open>The client's \<open>setEx(key, ttlSeconds, value)\<close> at time \<open>now\<close>.\<close>

definition redis_setEx :: "'v redis \<Rightarrow> nat \<Rightarrow> string \<Rightarrow> nat \<Rightarrow> 'v \<Rightarrow> (error + unit) \<times> 'v redis" where
  "redis_setEx r now key ttlSeconds v =
     (if setEx_rejects r then (Inl RedisError, r)
      else (Inr (), r\<lparr>entries := (entries r)(key \<mapsto> (v, now + ttlSeconds))\<rparr>))"

text \<open>
  \<open>cache.get(key)\<close>. The result is typed as a call that could throw; \<open>None\<close> is
  \<open>null\<close>.
\<close>

definition cache_get :: "'v redis \<Rightarrow> nat \<Rightarrow> string \<Rightarrow> error + 'v option" where
  "cache_get r now key =
     (if \<not> redisClient r \<or> \<not> redisConnected r then Inr None
      else (case redis_get r now key of
              Inl e \<Rightarrow> Inr None
            | Inr v \<Rightarrow> (case v of Some x \<Rightarrow> Inr (Some x) | None \<Rightarrow> Inr None)))"

text \<open>\<open>cache.set(key, value, ttlSeconds)\<close>.\<close>

definition cache_set :: "'v redis \<Rightarrow> nat \<Rightarrow> string \<Rightarrow> 'v \<Rightarrow> nat \<Rightarrow> (error + bool) \<times> 'v redis" where
  "cache_set r now key v ttlSeconds =
     (if \<not> redisClient r \<or> \<not> redisConnected r then (Inr False, r)
      else (case redis_setEx r now key ttlSeconds v of
              (Inl e, r') \<Rightarrow> (Inr False, r')
            | (Inr u, r') \<Rightarrow> (Inr True, r')))"

section \<open>Durable store\<close>

text \<open>
  A row of the comparison query: the columns of \<open>player_profiles\<close> joined with
  \<open>users\<close>, \<open>player_attributes\<close>, \<open>teams\<close> and \<open>clubs\<close>. The columns that come from a
  \<open>LEFT JOIN\<close> are \<open>None\<close> (\<open>null\<close>) when the joined row is absent.
\<close>

record player_row = profile +
  first_name :: string
  last_name :: string
  avatar_url :: "string option"
  primary_position :: string
  age_group :: "string option"
  team_name :: "string option"
  club_name :: "string option"
  club_logo :: "string option"
  nova_score_trend :: rat
  stars :: rat
  star_type :: string
  match_score :: rat
  task_score :: rat
  video_score :: rat
  physical_score :: rat
  pace :: "int option"
  shooting :: "int option"
  passing :: "int option"
  dribbling :: "int option"
  defending :: "int option"
  physical :: "int option"

text \<open>A row of the recent-matches query, as the list of its columns and values.\<close>

type_synonym match_row = "(string \<times> string) list"

text \<open>The queries the two controllers issue, with their parameter.\<close>

datatype query =
    SelectProfile string
  | SelectAnalyticsCache string
  | UpsertAnalyticsCache string
  | SelectMatches string
  | SelectCompare "string list"

text \<open>
  Modelled from the spec: \<open>config/database.js\<close> (the \<open>query\<close> helper and its
  connection pool) is not among the sources. The spec gives its contract: store
  reads and upserts are authoritative and may throw on connection failure.
  \<open>rejects\<close> says which queries throw; \<open>issued\<close> records every query sent, oldest
  first. \<open>player_rows\<close> is the joined relation in the order the store returns its
  rows, \<open>agent_analytics_cache\<close> the analytics table (one row per player at most),
  \<open>matches\<close> the rows of the recent-matches query per player, and \<open>db_now\<close> the
  store's \<open>NOW()\<close>.
\<close>

record db =
  player_rows :: "player_row list"
  agent_analytics_cache :: "string \<rightharpoonup> analytics"
  matches :: "string \<Rightarrow> match_row list"
  rejects :: "query \<Rightarrow> bool"
  issued :: "query list"
  db_now :: nat

definition query :: "db \<Rightarrow> query \<Rightarrow> 'a \<Rightarrow> (error + 'a) \<times> db" where
  "query d q rows =
     (if rejects d q then (Inl QueryError, d\<lparr>issued := issued d @ [q]\<rparr>)
      else (Inr rows, d\<lparr>issued := issued d @ [q]\<rparr>))"

text \<open>\<open>SELECT id, nova_score, discipline_score FROM player_profiles WHERE id = $1\<close>\<close>

definition select_profile :: "db \<Rightarrow> string \<Rightarrow> (error + profile list) \<times> db" where
  "select_profile d i =
     query d (SelectProfile i) (map profile.truncate (filter (\<lambda>r. player_id r = i) (player_rows d)))"

text \<open>\<open>SELECT * FROM agent_analytics_cache WHERE player_id = $1\<close>\<close>

definition select_analytics_cache :: "db \<Rightarrow> string \<Rightarrow> (error + analytics list) \<times> db" where
  "select_analytics_cache d i =
     query d (SelectAnalyticsCache i)
       (case agent_analytics_cache d i of None \<Rightarrow> [] | Some a \<Rightarrow> [a])"

text \<open>
  \<open>INSERT INTO agent_analytics_cache ... ON CONFLICT (player_id) DO UPDATE SET ...\<close>:
  the eleven parameters are written; \<open>last_calculated_at\<close> is the store's
  \<open>NOW()\<close> on update and its column default \<open>CURRENT_TIMESTAMP\<close> on insert.
\<close>

definition upsert_analytics_cache :: "db \<Rightarrow> string \<Rightarrow> analytics \<Rightarrow> (error + unit) \<times> db" where
  "upsert_analytics_cache d i a =
     (if rejects d (UpsertAnalyticsCache i)
      then (Inl QueryError, d\<lparr>issued := issued d @ [UpsertAnalyticsCache i]\<rparr>)
      else (Inr (),
            d\<lparr>issued := issued d @ [UpsertAnalyticsCache i],
              agent_analytics_cache :=
                (agent_analytics_cache d)(i \<mapsto> a\<lparr>last_calculated_at := db_now d\<rparr>)\<rparr>))"

text \<open>The recent-matches query (\<open>... WHERE mp.player_id = $1 ORDER BY m.match_date DESC LIMIT 10\<close>).\<close>

definition select_matches :: "db \<Rightarrow> string \<Rightarrow> (error + match_row list) \<times> db" where
  "select_matches d i = query d (SelectMatches i) (matches d i)"

text \<open>The comparison query (\<open>... WHERE pp.id = ANY($1)\<close>).\<close>

definition select_compare :: "db \<Rightarrow> string list \<Rightarrow> (error + player_row list) \<times> db" where
  "select_compare d playerIds =
     query d (SelectCompare playerIds) (filter (\<lambda>r. player_id r \<in> set playerIds) (player_rows d))"

text \<open>The process: the fast cache, the store, and the clock \<open>new Date()\<close> reads.\<close>

record world =
  redis :: "analytics redis"
  store :: db
  clock :: nat

section \<open>getPlayerAnalytics and calculatePlayerAnalytics (controllers/playersController.js)\<close>

record score_level =
  score :: int
  level :: string

record consistency_panel = score_level +
  trend :: string

record work_rate_panel = score_level +
  breakdown :: work_rate_breakdown

record risk_panel = score_level +
  factors :: risk_factors

text \<open>The \<open>data\<close> object of the analytics response.\<close>

record analytics_response =
  playerId :: string
  novaScore :: rat
  performance :: performance_data
  consistency_view :: consistency_panel
  workRate_view :: work_rate_panel
  risk_view :: risk_panel
  recentMatches :: "match_row list"
  lastCalculated :: nat

text \<open>
  \<open>calculatePlayerAnalytics(playerId, player)\<close>: builds the analytics object, awaits
  the upsert (no \<open>try\<close> around it) and returns the object.
\<close>

definition calculatePlayerAnalytics ::
  "world \<Rightarrow> string \<Rightarrow> 'a profile_scheme \<Rightarrow> (error + analytics) \<times> world" where
  "calculatePlayerAnalytics w pid player =
     (let analytics = derive (clock w) player in
      case upsert_analytics_cache (store w) pid analytics of
        (Inl e, d) \<Rightarrow> (Inl e, w\<lparr>store := d\<rparr>)
      | (Inr u, d) \<Rightarrow> (Inr analytics, w\<lparr>store := d\<rparr>))"

text \<open>
  Lines 263-283 of \<open>getPlayerAnalytics\<close>: the fast cache under the key
  \<open>`analytics:${id}`\<close>, then the analytics table, then the calculation;
  \<open>cache.set(cacheKey, analytics, 3600)\<close> after a fast-cache miss.
\<close>

definition cacheKey :: "string \<Rightarrow> string" where
  "cacheKey i = ''analytics:'' @ i"

definition lookup_analytics ::
  "world \<Rightarrow> string \<Rightarrow> 'a profile_scheme \<Rightarrow> (error + analytics) \<times> world" where
  "lookup_analytics w i player =
     (case cache_get (redis w) (clock w) (cacheKey i) of
        Inl e \<Rightarrow> (Inl e, w)
      | Inr (Some analytics) \<Rightarrow> (Inr analytics, w)
      | Inr None \<Rightarrow>
          (case select_analytics_cache (store w) i of
             (Inl e, d) \<Rightarrow> (Inl e, w\<lparr>store := d\<rparr>)
           | (Inr rows, d) \<Rightarrow>
               (case (case rows of
                        a # _ \<Rightarrow> (Inr a, w\<lparr>store := d\<rparr>)
                      | [] \<Rightarrow> calculatePlayerAnalytics (w\<lparr>store := d\<rparr>) i player) of
                  (Inl e, w') \<Rightarrow> (Inl e, w')
                | (Inr analytics, w') \<Rightarrow>
                    (case cache_set (redis w') (clock w') (cacheKey i) analytics 3600 of
                       (Inl e, r) \<Rightarrow> (Inl e, w'\<lparr>redis := r\<rparr>)
                     | (Inr b, r) \<Rightarrow> (Inr analytics, w'\<lparr>redis := r\<rparr>)))))"

text \<open>The \<open>data\<close> object handed to \<open>res.json\<close> (lines 299-320).\<close>

definition response_data ::
  "string \<Rightarrow> 'a profile_scheme \<Rightarrow> analytics \<Rightarrow> match_row list \<Rightarrow> analytics_response" where
  "response_data i player analytics matchRows =
     \<lparr> playerId = i,
       novaScore = nova_score player,
       performance = performance_data analytics,
       consistency_view =
         \<lparr> score = consistency_score analytics,
           level = consistency_level analytics,
           trend = consistency_trend analytics \<rparr>,
       workRate_view =
         \<lparr> score = work_rate_score analytics,
           level = work_rate_level analytics,
           breakdown = work_rate_breakdown analytics \<rparr>,
       risk_view =
         \<lparr> score = risk_score analytics,
           level = risk_level analytics,
           factors = risk_factors analytics \<rparr>,
       recentMatches = matchRows,
       lastCalculated = last_calculated_at analytics \<rparr>"

text \<open>\<open>getPlayerAnalytics\<close> with \<open>req.params.id = i\<close>; the result is what \<open>res.json\<close> sends.\<close>

definition getPlayerAnalytics :: "world \<Rightarrow> string \<Rightarrow> (error + analytics_response) \<times> world" where
  "getPlayerAnalytics w i =
     (case select_profile (store w) i of
        (Inl e, d) \<Rightarrow> (Inl e, w\<lparr>store := d\<rparr>)
      | (Inr rows, d) \<Rightarrow>
          (case rows of
             [] \<Rightarrow> (Inl (AppError ''Player not found'' 404), w\<lparr>store := d\<rparr>)
           | player # _ \<Rightarrow>
               (case lookup_analytics (w\<lparr>store := d\<rparr>) i player of
                  (Inl e, w') \<Rightarrow> (Inl e, w')
                | (Inr analytics, w') \<Rightarrow>
                    (case select_matches (store w') i of
                       (Inl e, d') \<Rightarrow> (Inl e, w'\<lparr>store := d'\<rparr>)
                     | (Inr matchRows, d') \<Rightarrow>
                         (Inr (response_data i player analytics matchRows),
                          w'\<lparr>store := d'\<rparr>)))))"

section \<open>comparePlayers (controllers/playersController.js)\<close>

text \<open>\<open>req.body.playerIds\<close>: absent or falsy, a value that is not an array, or an array.\<close>

datatype body_value = Falsy | NotArray | IdArray "string list"

record performance_breakdown =
  pb_matchScore :: rat
  pb_taskScore :: rat
  pb_videoScore :: rat
  pb_physicalScore :: rat

record attributes =
  a_pace :: "int option"
  a_shooting :: "int option"
  a_passing :: "int option"
  a_dribbling :: "int option"
  a_defending :: "int option"
  a_physical :: "int option"

text \<open>One element of \<open>comparison\<close>. The field \<open>cv_overall\<close> is \<open>overall\<close>.\<close>

record comparison_view =
  cv_id :: string
  firstName :: string
  lastName :: string
  avatarUrl :: "string option"
  position :: string
  ageGroup :: "string option"
  team :: "string option"
  club :: "string option"
  clubLogo :: "string option"
  cv_novaScore :: rat
  cv_trend :: rat
  cv_stars :: rat
  starType :: string
  cv_overall :: int
  performanceBreakdown :: performance_breakdown
  cv_attributes :: attributes
  cv_consistency :: "score_level option"
  cv_workRate :: "score_level option"
  cv_risk :: "score_level option"

record compare_response =
  players :: "comparison_view list"
  comparedAt :: nat

text \<open>
  \<open>playersResult.rows.map(async (player) => ...)\<close> under \<open>Promise.all\<close>: one
  analytics query per row, all of them issued; \<open>rows[0] || null\<close> is the row or
  \<open>None\<close>. One rejected query rejects the whole.
\<close>

fun analyticsPromises :: "db \<Rightarrow> player_row list \<Rightarrow> (error + (string \<times> analytics option) list) \<times> db" where
  "analyticsPromises d [] = (Inr [], d)"
| "analyticsPromises d (player # rest) =
     (case select_analytics_cache d (player_id player) of
        (result, d') \<Rightarrow>
          (case analyticsPromises d' rest of
             (results, d'') \<Rightarrow>
               (case result of
                  Inl e \<Rightarrow> (Inl e, d'')
                | Inr rows \<Rightarrow>
                    (case results of
                       Inl e \<Rightarrow> (Inl e, d'')
                     | Inr others \<Rightarrow>
                         (Inr ((player_id player, (case rows of [] \<Rightarrow> None | a # _ \<Rightarrow> Some a)) # others),
                          d'')))))"

text \<open>The function mapped over \<open>playersResult.rows\<close> to build \<open>comparison\<close>.\<close>

definition format_comparison :: "(string \<times> analytics option) list \<Rightarrow> player_row \<Rightarrow> comparison_view" where
  "format_comparison analyticsData player =
     (let playerAnalytics =
            (case find (\<lambda>a. fst a = player_id player) analyticsData of
               None \<Rightarrow> None
             | Some a \<Rightarrow> snd a)
      in \<lparr> cv_id = player_id player,
           firstName = first_name player,
           lastName = last_name player,
           avatarUrl = avatar_url player,
           position = primary_position player,
           ageGroup = age_group player,
           team = team_name player,
           club = club_name player,
           clubLogo = club_logo player,
           cv_novaScore = nova_score player,
           cv_trend = nova_score_trend player,
           cv_stars = stars player,
           starType = star_type player,
           cv_overall =
             js_round (of_int (js_number (pace player) + js_number (shooting player)
                                 + js_number (passing player) + js_number (dribbling player)
                                 + js_number (defending player) + js_number (physical player)) / 6),
           performanceBreakdown =
             \<lparr> pb_matchScore = match_score player,
               pb_taskScore = task_score player,
               pb_videoScore = video_score player,
               pb_physicalScore = physical_score player \<rparr>,
           cv_attributes =
             \<lparr> a_pace = pace player,
               a_shooting = shooting player,
               a_passing = passing player,
               a_dribbling = dribbling player,
               a_defending = defending player,
               a_physical = physical player \<rparr>,
           cv_consistency =
             (case playerAnalytics of
                Some a \<Rightarrow> Some \<lparr> score = consistency_score a, level = consistency_level a \<rparr>
              | None \<Rightarrow> None),
           cv_workRate =
             (case playerAnalytics of
                Some a \<Rightarrow> Some \<lparr> score = work_rate_score a, level = work_rate_level a \<rparr>
              | None \<Rightarrow> None),
           cv_risk =
             (case playerAnalytics of
                Some a \<Rightarrow> Some \<lparr> score = risk_score a, level = risk_level a \<rparr>
              | None \<Rightarrow> None) \<rparr>)"

definition comparePlayers :: "world \<Rightarrow> body_value \<Rightarrow> (error + compare_response) \<times> world" where
  "comparePlayers w body =
     (case body of
        Falsy \<Rightarrow> (Inl (AppError ''Please provide 2-4 player IDs to compare'' 400), w)
      | NotArray \<Rightarrow> (Inl (AppError ''Please provide 2-4 player IDs to compare'' 400), w)
      | IdArray playerIds \<Rightarrow>
          if length playerIds < 2 \<or> length playerIds > 4
          then (Inl (AppError ''Please provide 2-4 player IDs to compare'' 400), w)
          else (case select_compare (store w) playerIds of
                  (Inl e, d) \<Rightarrow> (Inl e, w\<lparr>store := d\<rparr>)
                | (Inr rows, d) \<Rightarrow>
                    if length rows < 2
                    then (Inl (AppError ''Could not find enough players to compare'' 404),
                          w\<lparr>store := d\<rparr>)
                    else (case analyticsPromises d rows of
                            (Inl e, d') \<Rightarrow> (Inl e, w\<lparr>store := d'\<rparr>)
                          | (Inr analyticsData, d') \<Rightarrow>
                              (Inr \<lparr> players = map (format_comparison analyticsData) rows,
                                     comparedAt = clock w \<rparr>,
                               w\<lparr>store := d'\<rparr>))))"

section \<open>Example states\<close>

text \<open>A joined row with the given id, scores and (six equal) attributes.\<close>

definition sample_row :: "string \<Rightarrow> rat \<Rightarrow> int \<Rightarrow> int option \<Rightarrow> player_row" where
  "sample_row i nova disc attr =
     \<lparr> player_id = i, nova_score = nova, discipline_score = disc,
       first_name = ''Sam'', last_name = i, avatar_url = None, primary_position = ''ST'',
       age_group = Some ''U17'', team_name = None, club_name = None, club_logo = None,
       nova_score_trend = 0, stars = 3, star_type = ''black'',
       match_score = 0, task_score = 0, video_score = 0, physical_score = 0,
       pace = attr, shooting = attr, passing = attr,
       dribbling = attr, defending = attr, physical = attr \<rparr>"

text \<open>
  Player \<open>a\<close> (NovaScore 90, discipline 95, attributes 70 to 75) is stored before
  player \<open>b\<close> (NovaScore 55, discipline 50, no \<open>player_attributes\<close> row).
\<close>

definition row_a :: player_row where
  "row_a = (sample_row ''a'' 90 95 (Some 70))
             \<lparr> shooting := Some 71, passing := Some 72, dribbling := Some 73,
               defending := Some 74, physical := Some 75 \<rparr>"

definition row_b :: player_row where
  "row_b = sample_row ''b'' 55 50 None"

definition no_rejects :: "query \<Rightarrow> bool" where
  "no_rejects q = False"

definition upsert_rejects :: "query \<Rightarrow> bool" where
  "upsert_rejects q = (q = UpsertAnalyticsCache ''a'')"

definition no_matches :: "string \<Rightarrow> match_row list" where
  "no_matches i = []"

definition sample_store :: "(string \<rightharpoonup> analytics) \<Rightarrow> (query \<Rightarrow> bool) \<Rightarrow> db" where
  "sample_store table rj =
     \<lparr> player_rows = [row_a, row_b], agent_analytics_cache = table, matches = no_matches,
       rejects = rj, issued = [], db_now = 2000 \<rparr>"

definition sample_redis :: "bool \<Rightarrow> (string \<rightharpoonup> analytics \<times> nat) \<Rightarrow> analytics redis" where
  "sample_redis up es =
     \<lparr> redisClient = True, redisConnected = up, get_rejects = False,
       setEx_rejects = False, entries = es \<rparr>"

text \<open>An analytics record computed long ago from other scores than player \<open>a\<close> has now.\<close>

definition old_record :: analytics where
  "old_record = derive 7 (sample_row ''a'' 40 30 None)"

definition world_miss :: world where
  "world_miss =
     \<lparr> redis = sample_redis True Map.empty,
       store = sample_store Map.empty no_rejects, clock = 1000 \<rparr>"

definition world_durable :: world where
  "world_durable =
     \<lparr> redis = sample_redis True Map.empty,
       store = sample_store [''a'' \<mapsto> old_record] no_rejects, clock = 1000 \<rparr>"

definition world_cached :: world where
  "world_cached =
     \<lparr> redis = sample_redis True [cacheKey ''a'' \<mapsto> (old_record, 1500)],
       store = sample_store Map.empty no_rejects, clock = 1000 \<rparr>"


definition world_cache_down :: world where
  "world_cache_down =
     \<lparr> redis = sample_redis False Map.empty,
       store = sample_store [''a'' \<mapsto> old_record] no_rejects, clock = 3000 \<rparr>"

definition world_upsert_fails :: world where
  "world_upsert_fails =
     \<lparr> redis = sample_redis True Map.empty,
       store = sample_store Map.empty upsert_rejects, clock = 1000 \<rparr>"

text \<open>Observers of a comparison result: the ids and the \<open>overall\<close> values, in order.\<close>

definition compared_ids :: "(error + compare_response) \<Rightarrow> string list option" where
  "compared_ids res = (case res of Inl e \<Rightarrow> None | Inr r \<Rightarrow> Some (map cv_id (players r)))"

definition compared_overalls :: "(error + compare_response) \<Rightarrow> int list option" where
  "compared_overalls res = (case res of Inl e \<Rightarrow> None | Inr r \<Rightarrow> Some (map cv_overall (players r)))"

section \<open>Rounding lemmas\<close>

lemma js_round_tenths: "js_round (of_int d * (of_int k / 10)) = (2 * k * d + 10) div 20"
proof -
  have "of_int d * (of_int k / 10) + 1 / 2 = (of_int (2 * k * d + 10) :: rat) / of_int 20"
    by (simp add: field_simps)
  then have "js_round (of_int d * (of_int k / 10)) = \<lfloor>(of_int (2 * k * d + 10) :: rat) / of_int 20\<rfloor>"
    by (simp only: js_round_def)
  then show ?thesis
    by (simp only: floor_divide_of_int_eq)
qed

lemma js_round_of_int [simp]: "js_round (of_int n) = n"
proof -
  have "\<lfloor>(of_int n :: rat) + 1 / 2\<rfloor> = n"
    by (rule floor_unique) simp_all
  then show ?thesis by (simp only: js_round_def)
qed

lemma js_round_fraction:
  assumes "0 < b"
  shows "js_round (of_int a / of_int b) = (2 * a + b) div (2 * b)"
proof -
  have "of_int a / of_int b + 1 / 2 = (of_int (2 * a + b) :: rat) / of_int (2 * b)"
    using assms by (simp add: field_simps)
  then have "js_round (of_int a / of_int b) = \<lfloor>(of_int (2 * a + b) :: rat) / of_int (2 * b)\<rfloor>"
    by (simp only: js_round_def)
  then show ?thesis
    by (simp only: floor_divide_of_int_eq)
qed

lemma js_round_numeral [simp]: "js_round (numeral n) = numeral n"
  using js_round_of_int[of "numeral n"] by simp

lemma js_round_0 [simp]: "js_round 0 = 0"
  using js_round_of_int[of 0] by simp

lemma js_round_1 [simp]: "js_round 1 = 1"
  using js_round_of_int[of 1] by simp

lemma js_round_numeral_divide [simp]:
  "js_round (numeral a / numeral b) = (2 * numeral a + numeral b) div (2 * numeral b)"
  using js_round_fraction[of "numeral b" "numeral a"] by simp

lemma js_round_one_divide [simp]:
  "js_round (1 / numeral b) = (2 + numeral b) div (2 * numeral b)"
  using js_round_fraction[of "numeral b" 1] by simp

lemma breakdown_div:
  "attendance (work_rate_breakdown (derive now player)) = (8 * discipline_score player + 10) div 20"
  "taskCompletion (work_rate_breakdown (derive now player)) = (6 * discipline_score player + 10) div 20"
  "uploadFrequency (work_rate_breakdown (derive now player)) = (4 * discipline_score player + 10) div 20"
  "discipline (work_rate_breakdown (derive now player)) = (2 * discipline_score player + 10) div 20"
  using js_round_tenths[of "discipline_score player" 4] js_round_tenths[of "discipline_score player" 3]
      js_round_tenths[of "discipline_score player" 2] js_round_tenths[of "discipline_score player" 1]
  by (simp_all add: derive_def)

lemma risk_score_div:
  "risk_score (derive now player) = 100 - (10 * (100 - discipline_score player) + 10) div 20"
  using js_round_tenths[of "100 - discipline_score player" 5]
  by (simp add: derive_def)

lemma risk_score_half:
  "risk_score (derive now player) = 100 - (101 - discipline_score player) div 2"
proof -
  have "(10 * (100 - discipline_score player) + 10) div 20
          = (10 * (101 - discipline_score player)) div (10 * 2)"
    by (simp add: algebra_simps)
  also have "\<dots> = (101 - discipline_score player) div 2"
    by (simp only: div_mult_mult1_if) simp
  finally show ?thesis
    by (simp only: risk_score_div)
qed

lemma risk_level_high:
  "risk_level (derive now player) = ''high'' \<longleftrightarrow> discipline_score player < 60"
  by (simp add: derive_def)

section \<open>The paths of getPlayerAnalytics\<close>

lemma derive_truncate: "derive now (profile.truncate player) = derive now player"
  by (simp add: derive_def profile.truncate_def)

lemma response_data_truncate:
  "response_data i (profile.truncate player) a ms = response_data i player a ms"
  by (simp add: response_data_def profile.truncate_def)

lemma cache_get_eq:
  "cache_get r now key =
     Inr (if redisClient r \<and> redisConnected r \<and> \<not> get_rejects r
          then (case entries r key of None \<Rightarrow> None
                | Some (v, expires) \<Rightarrow> if now < expires then Some v else None)
          else None)"
  by (simp add: cache_get_def redis_get_def split: option.split)

lemma cache_set_eq:
  "cache_set r now key v ttl =
     (Inr (redisClient r \<and> redisConnected r \<and> \<not> setEx_rejects r),
      if redisClient r \<and> redisConnected r \<and> \<not> setEx_rejects r
      then r\<lparr>entries := (entries r)(key \<mapsto> (v, now + ttl))\<rparr> else r)"
  by (auto simp add: cache_set_def redis_setEx_def)


lemma lookup_analytics_durable:
  assumes "cache_get (redis w) (clock w) (cacheKey i) = Inr None"
      and "\<not> rejects (store w) (SelectAnalyticsCache i)"
      and "agent_analytics_cache (store w) i = Some a"
  shows "lookup_analytics w i player =
           (Inr a, w\<lparr>store := (store w)\<lparr>issued := issued (store w) @ [SelectAnalyticsCache i]\<rparr>,
                     redis := snd (cache_set (redis w) (clock w) (cacheKey i) a 3600)\<rparr>)"
  using assms
  by (simp add: lookup_analytics_def select_analytics_cache_def query_def cache_set_eq)

lemma lookup_analytics_derived:
  assumes "cache_get (redis w) (clock w) (cacheKey i) = Inr None"
      and "\<not> rejects (store w) (SelectAnalyticsCache i)"
      and "\<not> rejects (store w) (UpsertAnalyticsCache i)"
      and "agent_analytics_cache (store w) i = None"
  shows "lookup_analytics w i player =
           (Inr (derive (clock w) player),
            w\<lparr>store := (store w)\<lparr>issued := issued (store w) @ [SelectAnalyticsCache i, UpsertAnalyticsCache i],
                   agent_analytics_cache := (agent_analytics_cache (store w))
                       (i \<mapsto> (derive (clock w) player)\<lparr>last_calculated_at := db_now (store w)\<rparr>)\<rparr>,
              redis := snd (cache_set (redis w) (clock w) (cacheKey i) (derive (clock w) player) 3600)\<rparr>)"
  using assms
  by (simp add: lookup_analytics_def select_analytics_cache_def query_def calculatePlayerAnalytics_def
      upsert_analytics_cache_def cache_set_eq Let_def)

lemma lookup_analytics_upsert_rejected:
  assumes "cache_get (redis w) (clock w) (cacheKey i) = Inr None"
      and "\<not> rejects (store w) (SelectAnalyticsCache i)"
      and "rejects (store w) (UpsertAnalyticsCache i)"
      and "agent_analytics_cache (store w) i = None"
  shows "lookup_analytics w i player =
           (Inl QueryError,
            w\<lparr>store := (store w)\<lparr>issued := issued (store w) @ [SelectAnalyticsCache i, UpsertAnalyticsCache i]\<rparr>\<rparr>)"
  using assms
  by (simp add: lookup_analytics_def select_analytics_cache_def query_def calculatePlayerAnalytics_def
      upsert_analytics_cache_def Let_def)


lemma getPlayerAnalytics_durable:
  assumes found: "filter (\<lambda>r. player_id r = i) (player_rows (store w)) = player # rest"
      and ok: "\<not> rejects (store w) (SelectProfile i)" "\<not> rejects (store w) (SelectMatches i)"
        "\<not> rejects (store w) (SelectAnalyticsCache i)"
      and miss: "cache_get (redis w) (clock w) (cacheKey i) = Inr None"
      and row: "agent_analytics_cache (store w) i = Some a"
  shows "getPlayerAnalytics w i =
           (Inr (response_data i player a (matches (store w) i)),
            w\<lparr>store := (store w)\<lparr>issued := issued (store w) @
                       [SelectProfile i, SelectAnalyticsCache i, SelectMatches i]\<rparr>,
              redis := snd (cache_set (redis w) (clock w) (cacheKey i) a 3600)\<rparr>)"
proof -
  let ?w1 = "w\<lparr>store := (store w)\<lparr>issued := issued (store w) @ [SelectProfile i]\<rparr>\<rparr>"
  have L: "lookup_analytics ?w1 i (profile.truncate player) =
             (Inr a, ?w1\<lparr>store := (store ?w1)\<lparr>issued := issued (store ?w1) @ [SelectAnalyticsCache i]\<rparr>,
                       redis := snd (cache_set (redis ?w1) (clock ?w1) (cacheKey i) a 3600)\<rparr>)"
    by (rule lookup_analytics_durable) (simp_all add: miss ok row)
  show ?thesis
    using found ok
    by (simp add: getPlayerAnalytics_def select_profile_def query_def L select_matches_def
        response_data_truncate)
qed

lemma getPlayerAnalytics_derived:
  assumes found: "filter (\<lambda>r. player_id r = i) (player_rows (store w)) = player # rest"
      and ok: "\<not> rejects (store w) (SelectProfile i)" "\<not> rejects (store w) (SelectMatches i)"
        "\<not> rejects (store w) (SelectAnalyticsCache i)" "\<not> rejects (store w) (UpsertAnalyticsCache i)"
      and miss: "cache_get (redis w) (clock w) (cacheKey i) = Inr None"
      and norow: "agent_analytics_cache (store w) i = None"
  shows "getPlayerAnalytics w i =
           (Inr (response_data i player (derive (clock w) player) (matches (store w) i)),
            w\<lparr>store := (store w)\<lparr>issued := issued (store w) @
                       [SelectProfile i, SelectAnalyticsCache i, UpsertAnalyticsCache i, SelectMatches i],
                     agent_analytics_cache := (agent_analytics_cache (store w))
                       (i \<mapsto> (derive (clock w) player)\<lparr>last_calculated_at := db_now (store w)\<rparr>)\<rparr>,
              redis := snd (cache_set (redis w) (clock w) (cacheKey i) (derive (clock w) player) 3600)\<rparr>)"
proof -
  let ?w1 = "w\<lparr>store := (store w)\<lparr>issued := issued (store w) @ [SelectProfile i]\<rparr>\<rparr>"
  let ?a = "derive (clock ?w1) (profile.truncate player)"
  have L: "lookup_analytics ?w1 i (profile.truncate player) =
             (Inr ?a,
              ?w1\<lparr>store := (store ?w1)\<lparr>issued := issued (store ?w1) @ [SelectAnalyticsCache i, UpsertAnalyticsCache i],
                   agent_analytics_cache := (agent_analytics_cache (store ?w1))
                       (i \<mapsto> ?a\<lparr>last_calculated_at := db_now (store ?w1)\<rparr>)\<rparr>,
                redis := snd (cache_set (redis ?w1) (clock ?w1) (cacheKey i) ?a 3600)\<rparr>)"
    by (rule lookup_analytics_derived) (simp_all add: miss ok norow)
  show ?thesis
    using found ok
    by (simp add: getPlayerAnalytics_def select_profile_def query_def L select_matches_def
        response_data_truncate derive_truncate)
qed

lemma getPlayerAnalytics_upsert_rejected:
  assumes found: "filter (\<lambda>r. player_id r = i) (player_rows (store w)) = player # rest"
      and ok: "\<not> rejects (store w) (SelectProfile i)" "\<not> rejects (store w) (SelectAnalyticsCache i)"
      and bad: "rejects (store w) (UpsertAnalyticsCache i)"
      and miss: "cache_get (redis w) (clock w) (cacheKey i) = Inr None"
      and norow: "agent_analytics_cache (store w) i = None"
  shows "getPlayerAnalytics w i =
           (Inl QueryError,
            w\<lparr>store := (store w)\<lparr>issued := issued (store w) @
                       [SelectProfile i, SelectAnalyticsCache i, UpsertAnalyticsCache i]\<rparr>\<rparr>)"
proof -
  let ?w1 = "w\<lparr>store := (store w)\<lparr>issued := issued (store w) @ [SelectProfile i]\<rparr>\<rparr>"
  have L: "lookup_analytics ?w1 i (profile.truncate player) =
             (Inl QueryError,
              ?w1\<lparr>store := (store ?w1)\<lparr>issued := issued (store ?w1) @ [SelectAnalyticsCache i, UpsertAnalyticsCache i]\<rparr>\<rparr>)"
    by (rule lookup_analytics_upsert_rejected) (simp_all add: miss ok bad norow)
  show ?thesis
    using found ok
    by (simp add: getPlayerAnalytics_def select_profile_def query_def L)
qed



section \<open>The steps of comparePlayers\<close>

lemma select_analytics_cache_ok:
  assumes "\<not> rejects d (SelectAnalyticsCache i)"
  shows "select_analytics_cache d i =
           (Inr (case agent_analytics_cache d i of None \<Rightarrow> [] | Some a \<Rightarrow> [a]),
            d\<lparr>issued := issued d @ [SelectAnalyticsCache i]\<rparr>)"
  using assms by (simp add: select_analytics_cache_def query_def)

lemma analyticsPromises_ok:
  assumes "\<forall>i. \<not> rejects d (SelectAnalyticsCache i)"
  shows "analyticsPromises d rows =
           (Inr (map (\<lambda>p. (player_id p, agent_analytics_cache d (player_id p))) rows),
            d\<lparr>issued := issued d @ map (\<lambda>p. SelectAnalyticsCache (player_id p)) rows\<rparr>)"
  using assms
proof (induction rows arbitrary: d)
  case Nil
  then show ?case by simp
next
  case (Cons player rest)
  let ?d' = "d\<lparr>issued := issued d @ [SelectAnalyticsCache (player_id player)]\<rparr>"
  have step: "select_analytics_cache d (player_id player) =
           (Inr (case agent_analytics_cache d (player_id player) of None \<Rightarrow> [] | Some a \<Rightarrow> [a]), ?d')"
    using Cons.prems by (simp add: select_analytics_cache_ok)
  have "\<forall>i. \<not> rejects ?d' (SelectAnalyticsCache i)"
    using Cons.prems by simp
  then have rest: "analyticsPromises ?d' rest =
           (Inr (map (\<lambda>p. (player_id p, agent_analytics_cache ?d' (player_id p))) rest),
            ?d'\<lparr>issued := issued ?d' @ map (\<lambda>p. SelectAnalyticsCache (player_id p)) rest\<rparr>)"
    by (rule Cons.IH)
  show ?case
    by (simp add: step rest split: option.split)
qed

lemma cv_id_format_comparison: "cv_id (format_comparison analyticsData player) = player_id player"
  by (simp add: format_comparison_def Let_def)

lemma compare_rows:
  assumes "fst (comparePlayers w (IdArray playerIds)) = Inr resp"
  shows "\<exists>analyticsData.
           players resp =
             map (format_comparison analyticsData)
               (filter (\<lambda>r. player_id r \<in> set playerIds) (player_rows (store w)))"
  using assms
  by (auto simp add: comparePlayers_def select_compare_def query_def
      split: if_splits prod.splits sum.splits)

lemma overall_all_present:
  assumes "pace player = Some a" "shooting player = Some b" "passing player = Some c"
      "dribbling player = Some d" "defending player = Some e" "physical player = Some f"
  shows "cv_overall (format_comparison analyticsData player)
           = js_round (of_int (a + b + c + d + e + f) / 6)"
  using assms by (simp add: format_comparison_def js_number_def Let_def)

lemma two_rows_found:
  assumes "a \<noteq> b" and "a \<in> player_id ` set rows" and "b \<in> player_id ` set rows"
  shows "2 \<le> length (filter (\<lambda>r. player_id r \<in> set [a, b]) rows)"
proof -
  obtain ra rb where r: "ra \<in> set rows" "player_id ra = a" "rb \<in> set rows" "player_id rb = b"
    using assms(2,3) by auto
  then have "ra \<noteq> rb"
    using assms(1) by auto
  moreover have "{ra, rb} \<subseteq> set (filter (\<lambda>r. player_id r \<in> set [a, b]) rows)"
    using r by auto
  ultimately have "2 \<le> card (set (filter (\<lambda>r. player_id r \<in> set [a, b]) rows))"
    by (metis List.finite_set card_2_iff card_mono)
  then show ?thesis
    using card_length[of "filter (\<lambda>r. player_id r \<in> set [a, b]) rows"] by linarith
qed

section \<open>Facts about the example states\<close>

lemmas example_defs =
  world_miss_def world_durable_def world_cached_def world_cache_down_def world_upsert_fails_def
  sample_store_def sample_redis_def no_rejects_def upsert_rejects_def no_matches_def

lemma found_row_a: "player_id row_a = ''a''" "player_id row_b = ''b''"
  by (simp_all add: row_a_def row_b_def sample_row_def)

lemma compare_ab:
  "fst (comparePlayers world_miss (IdArray [''b'', ''a''])) =
     Inr \<lparr> players = [format_comparison [(''a'', None), (''b'', None)] row_a,
                       format_comparison [(''a'', None), (''b'', None)] row_b],
           comparedAt = 1000 \<rparr>"
proof -
  have ok: "\<forall>i. \<not> rejects (store world_miss\<lparr>issued := issued (store world_miss) @ [SelectCompare [''b'', ''a'']]\<rparr>)
              (SelectAnalyticsCache i)"
    by (simp add: example_defs)
  show ?thesis
    by (simp add: comparePlayers_def select_compare_def query_def analyticsPromises_ok[OF ok])
      (simp add: example_defs found_row_a)
qed

section \<open>Claims about the derivation\<close>

text \<open>
  C6. On a double miss (no fast-cache entry, no row in the analytics table) for a
  player with NovaScore 90 and discipline score 95, with every query answered,
  \<open>getPlayerAnalytics\<close> responds with performance.overall 90, consistency.score 81,
  workRate.score 95 and level elite, risk.score 97 and level low.
\<close>

theorem c6_miss_then_derive:
  assumes found: "filter (\<lambda>r. player_id r = i) (player_rows (store w)) = player # rest"
      and scores: "nova_score player = 90" "discipline_score player = 95"
      and miss: "cache_get (redis w) (clock w) (cacheKey i) = Inr None"
      and norow: "agent_analytics_cache (store w) i = None"
      and ok: "\<forall>q. \<not> rejects (store w) q"
  shows "\<exists>resp. fst (getPlayerAnalytics w i) = Inr resp
           \<and> overall (performance resp) = 90
           \<and> score (consistency_view resp) = 81
           \<and> score (workRate_view resp) = 95 \<and> level (workRate_view resp) = ''elite''
           \<and> score (risk_view resp) = 97 \<and> level (risk_view resp) = ''low''"
proof -
  have "fst (getPlayerAnalytics w i) =
          Inr (response_data i player (derive (clock w) player) (matches (store w) i))"
    using getPlayerAnalytics_derived[OF found _ _ _ _ miss norow] ok by simp
  then show ?thesis
    using scores by (simp add: response_data_def derive_def)
qed

theorem c6_miss_then_derive_witness:
  "filter (\<lambda>r. player_id r = ''a'') (player_rows (store world_miss)) = [row_a]
   \<and> nova_score row_a = 90 \<and> discipline_score row_a = 95
   \<and> cache_get (redis world_miss) (clock world_miss) (cacheKey ''a'') = Inr None
   \<and> agent_analytics_cache (store world_miss) ''a'' = None
   \<and> (\<forall>q. \<not> rejects (store world_miss) q)
   \<and> (\<exists>resp. fst (getPlayerAnalytics world_miss ''a'') = Inr resp
           \<and> overall (performance resp) = 90
           \<and> score (consistency_view resp) = 81
           \<and> score (workRate_view resp) = 95 \<and> level (workRate_view resp) = ''elite''
           \<and> score (risk_view resp) = 97 \<and> level (risk_view resp) = ''low'')"
proof -
  have h1: "filter (\<lambda>r. player_id r = ''a'') (player_rows (store world_miss)) = row_a # []"
    by (simp add: world_miss_def sample_store_def row_a_def row_b_def sample_row_def)
  have h2: "nova_score row_a = 90" "discipline_score row_a = 95"
    by (simp_all add: row_a_def sample_row_def)
  have h3: "cache_get (redis world_miss) (clock world_miss) (cacheKey ''a'') = Inr None"
    by (simp add: world_miss_def sample_redis_def cache_get_eq)
  have h4: "agent_analytics_cache (store world_miss) ''a'' = None"
    by (simp add: world_miss_def sample_store_def)
  have h5: "\<forall>q. \<not> rejects (store world_miss) q"
    by (simp add: world_miss_def sample_store_def no_rejects_def)
  show ?thesis
    using c6_miss_then_derive[OF h1 h2 h3 h4 h5] h1 h2 h3 h4 h5 by simp
qed

text \<open>
  C7. For every discipline score from 0 to 100 the four components of the work-rate
  breakdown are the independently rounded shares 0.4, 0.3, 0.2 and 0.1 of the score,
  and their sum is within 4 of the score. They are not re-normalised: at score 5
  they are 2, 2, 1 and 1, with sum 6.
\<close>

theorem c7_breakdown_sum:
  assumes "0 \<le> discipline_score player" and "discipline_score player \<le> 100"
  shows "work_rate_score (derive now player) = discipline_score player
       \<and> attendance (work_rate_breakdown (derive now player))
           = js_round (of_int (work_rate_score (derive now player)) * 0.4)
       \<and> taskCompletion (work_rate_breakdown (derive now player))
           = js_round (of_int (work_rate_score (derive now player)) * 0.3)
       \<and> uploadFrequency (work_rate_breakdown (derive now player))
           = js_round (of_int (work_rate_score (derive now player)) * 0.2)
       \<and> discipline (work_rate_breakdown (derive now player))
           = js_round (of_int (work_rate_score (derive now player)) * 0.1)
       \<and> \<bar>attendance (work_rate_breakdown (derive now player))
           + taskCompletion (work_rate_breakdown (derive now player))
           + uploadFrequency (work_rate_breakdown (derive now player))
           + discipline (work_rate_breakdown (derive now player))
           - work_rate_score (derive now player)\<bar> \<le> 4
       \<and> (discipline_score player = 5 \<longrightarrow>
            attendance (work_rate_breakdown (derive now player))
              + taskCompletion (work_rate_breakdown (derive now player))
              + uploadFrequency (work_rate_breakdown (derive now player))
              + discipline (work_rate_breakdown (derive now player)) = 6)"
proof -
  let ?d = "discipline_score player"
  have fields: "attendance (work_rate_breakdown (derive now player))
           = js_round (of_int (work_rate_score (derive now player)) * 0.4)"
     "taskCompletion (work_rate_breakdown (derive now player))
           = js_round (of_int (work_rate_score (derive now player)) * 0.3)"
     "uploadFrequency (work_rate_breakdown (derive now player))
           = js_round (of_int (work_rate_score (derive now player)) * 0.2)"
     "discipline (work_rate_breakdown (derive now player))
           = js_round (of_int (work_rate_score (derive now player)) * 0.1)"
    by (simp_all add: derive_def)
  have w: "work_rate_score (derive now player) = ?d"
    by (simp add: derive_def)
  have b: "\<bar>(8 * ?d + 10) div 20 + (6 * ?d + 10) div 20 + (4 * ?d + 10) div 20
             + (2 * ?d + 10) div 20 - ?d\<bar> \<le> 4"
    by arith
  have five: "?d = 5 \<longrightarrow> (8 * ?d + 10) div 20 + (6 * ?d + 10) div 20 + (4 * ?d + 10) div 20
             + (2 * ?d + 10) div 20 = 6"
    by simp
  show ?thesis
    using fields b five unfolding breakdown_div w by blast
qed

theorem c7_breakdown_sum_witness:
  "0 \<le> discipline_score (sample_row ''c'' 50 5 None)
   \<and> discipline_score (sample_row ''c'' 50 5 None) \<le> 100
   \<and> discipline_score (sample_row ''c'' 50 5 None) = 5
   \<and> attendance (work_rate_breakdown (derive 0 (sample_row ''c'' 50 5 None)))
       + taskCompletion (work_rate_breakdown (derive 0 (sample_row ''c'' 50 5 None)))
       + uploadFrequency (work_rate_breakdown (derive 0 (sample_row ''c'' 50 5 None)))
       + discipline (work_rate_breakdown (derive 0 (sample_row ''c'' 50 5 None))) = 6
   \<and> work_rate_score (derive 0 (sample_row ''c'' 50 5 None)) = 5"
proof -
  have h: "0 \<le> discipline_score (sample_row ''c'' 50 5 None)"
    "discipline_score (sample_row ''c'' 50 5 None) \<le> 100"
    "discipline_score (sample_row ''c'' 50 5 None) = 5"
    by (simp_all add: sample_row_def)
  have "work_rate_score (derive 0 (sample_row ''c'' 50 5 None)) = 5"
    by (simp add: derive_def sample_row_def)
  then show ?thesis
    using c7_breakdown_sum[OF h(1) h(2), of 0] h by simp
qed


text \<open>
  C9. The analytics object depends on the raw scores only: two calculations for
  profiles with the same NovaScore and discipline score, in any two states of the
  cache, the store and the clock, return records that are equal in every field
  except \<open>last_calculated_at\<close>.
\<close>

theorem c9_derive_deterministic:
  assumes "nova_score p = nova_score p'" and "discipline_score p = discipline_score p'"
      and "fst (calculatePlayerAnalytics w pid p) = Inr a"
      and "fst (calculatePlayerAnalytics w' pid' p') = Inr a'"
  shows "a\<lparr>last_calculated_at := t\<rparr> = a'\<lparr>last_calculated_at := t\<rparr>
       \<and> (derive now p)\<lparr>last_calculated_at := t\<rparr> = (derive now' p')\<lparr>last_calculated_at := t\<rparr>"
proof -
  have d: "(derive n p)\<lparr>last_calculated_at := t\<rparr> = (derive n' p')\<lparr>last_calculated_at := t\<rparr>" for n n'
    using assms(1,2) by (simp add: derive_def)
  have "a = derive (clock w) p"
    using assms(3)
    by (simp add: calculatePlayerAnalytics_def upsert_analytics_cache_def Let_def split: if_splits)
  moreover have "a' = derive (clock w') p'"
    using assms(4)
    by (simp add: calculatePlayerAnalytics_def upsert_analytics_cache_def Let_def split: if_splits)
  ultimately show ?thesis
    using d by simp
qed

theorem c9_derive_deterministic_witness:
  "nova_score row_a = nova_score (profile.truncate row_a)
   \<and> discipline_score row_a = discipline_score (profile.truncate row_a)
   \<and> fst (calculatePlayerAnalytics world_miss ''a'' row_a) = Inr (derive 1000 row_a)
   \<and> fst (calculatePlayerAnalytics world_cache_down ''z'' (profile.truncate row_a))
        = Inr (derive 3000 (profile.truncate row_a))
   \<and> (derive 1000 row_a)\<lparr>last_calculated_at := 0\<rparr>
        = (derive 3000 (profile.truncate row_a))\<lparr>last_calculated_at := 0\<rparr>
   \<and> last_calculated_at (derive 1000 row_a) \<noteq> last_calculated_at (derive 3000 (profile.truncate row_a))"
proof -
  have h1: "nova_score row_a = nova_score (profile.truncate row_a)"
    and h2: "discipline_score row_a = discipline_score (profile.truncate row_a)"
    by (simp_all add: profile.truncate_def)
  have h3: "fst (calculatePlayerAnalytics world_miss ''a'' row_a) = Inr (derive 1000 row_a)"
    by (simp add: calculatePlayerAnalytics_def upsert_analytics_cache_def Let_def
        world_miss_def sample_store_def no_rejects_def)
  have h4: "fst (calculatePlayerAnalytics world_cache_down ''z'' (profile.truncate row_a))
        = Inr (derive 3000 (profile.truncate row_a))"
    by (simp add: calculatePlayerAnalytics_def upsert_analytics_cache_def Let_def
        world_cache_down_def sample_store_def no_rejects_def)
  have h5: "last_calculated_at (derive 1000 row_a) \<noteq> last_calculated_at (derive 3000 (profile.truncate row_a))"
    by (simp add: derive_def)
  show ?thesis
    using c9_derive_deterministic[OF h1 h2 h3 h4, of 0] h1 h2 h3 h4 h5 by simp
qed


text \<open>
  C10 (amended). For every discipline score from 0 to 100 the risk score
  \<open>100 - round((100 - disciplineScore) * 0.5)\<close> lies between 50 and 100, and it is
  below 60 exactly for discipline scores below 20. The risk level is computed from
  the discipline score, not from the risk score: it is \<open>high\<close> exactly for discipline
  scores below 60.
\<close>

theorem c10_risk_score_range:
  assumes "0 \<le> discipline_score player" and "discipline_score player \<le> 100"
  shows "risk_score (derive now player)
           = 100 - js_round (of_int (100 - discipline_score player) * 0.5)
       \<and> 50 \<le> risk_score (derive now player) \<and> risk_score (derive now player) \<le> 100
       \<and> (risk_score (derive now player) < 60 \<longleftrightarrow> discipline_score player < 20)
       \<and> (risk_level (derive now player) = ''high'' \<longleftrightarrow> discipline_score player < 60)"
proof -
  let ?d = "discipline_score player"
  have s: "risk_score (derive now player) = 100 - js_round (of_int (100 - ?d) * 0.5)"
    by (simp add: derive_def)
  have lo: "50 \<le> 100 - (101 - ?d) div 2"
    using assms by linarith
  have hi: "100 - (101 - ?d) div 2 \<le> 100"
    using assms by linarith
  have lt: "100 - (101 - ?d) div 2 < 60 \<longleftrightarrow> ?d < 20"
    by linarith
  show ?thesis
    using s lo hi lt risk_level_high[of now player] unfolding risk_score_half by blast
qed


theorem c10_risk_score_range_witness:
  "0 \<le> discipline_score row_b \<and> discipline_score row_b \<le> 100
   \<and> risk_score (derive 0 row_b) = 75
   \<and> risk_level (derive 0 row_b) = ''high''
   \<and> discipline_score row_b = 50"
proof -
  have h: "0 \<le> discipline_score row_b" "discipline_score row_b \<le> 100"
    by (simp_all add: row_b_def sample_row_def)
  have d: "discipline_score row_b = 50"
    by (simp add: row_b_def sample_row_def)
  show ?thesis
    using c10_risk_score_range[OF h, of 0] h d by simp
qed

text \<open>
  C10 as stated fails: at discipline score 50 the risk level is \<open>high\<close> although the
  discipline score is not below 20 and the risk score, 75, is not below 60.
\<close>

theorem c10_high_level_counterexample:
  "risk_level (derive 0 row_b) = ''high''
   \<and> \<not> discipline_score row_b < 20
   \<and> \<not> risk_score (derive 0 row_b) < 60"
  by (simp add: derive_def row_b_def sample_row_def)


section \<open>Claims about getPlayerAnalytics\<close>




text \<open>
  C8. \<open>cache.get\<close> and \<open>cache.set\<close> never throw: they always return a value. When
  the client is absent or disconnected, or the client's call throws, \<open>cache.get\<close>
  returns \<open>null\<close> and \<open>cache.set\<close> returns \<open>false\<close> and leaves the cache as it was.
  With the fast cache unavailable, \<open>getPlayerAnalytics\<close> for an existing player (every
  query answered) still responds, with the row of the analytics table when there is
  one and with the calculated record otherwise.
\<close>

theorem c8_fast_cache_never_raises:
  "(\<exists>x. cache_get r now key = Inr x) \<and> (\<exists>b. fst (cache_set r now key v ttl) = Inr b)
   \<and> (\<not> redisClient r \<or> \<not> redisConnected r \<or> get_rejects r \<longrightarrow>
        cache_get r now key = Inr None)
   \<and> (\<not> redisClient r \<or> \<not> redisConnected r \<or> setEx_rejects r \<longrightarrow>
        cache_set r now key v ttl = (Inr False, r))
   \<and> (filter (\<lambda>r. player_id r = i) (player_rows (store w)) = player # rest
        \<and> (\<forall>q. \<not> rejects (store w) q)
        \<and> (\<not> redisClient (redis w) \<or> \<not> redisConnected (redis w) \<or> get_rejects (redis w)) \<longrightarrow>
        fst (getPlayerAnalytics w i) =
          Inr (response_data i player
                 (case agent_analytics_cache (store w) i of
                    Some a \<Rightarrow> a
                  | None \<Rightarrow> derive (clock w) player)
                 (matches (store w) i)))"
proof (intro conjI impI)
  show "\<exists>x. cache_get r now key = Inr x"
    by (simp add: cache_get_eq)
  show "\<exists>b. fst (cache_set r now key v ttl) = Inr b"
    by (simp add: cache_set_eq)
  show "cache_get r now key = Inr None"
    if "\<not> redisClient r \<or> \<not> redisConnected r \<or> get_rejects r"
    using that by (auto simp add: cache_get_eq)
  show "cache_set r now key v ttl = (Inr False, r)"
    if "\<not> redisClient r \<or> \<not> redisConnected r \<or> setEx_rejects r"
    using that by (auto simp add: cache_set_eq)
next
  assume h: "filter (\<lambda>r. player_id r = i) (player_rows (store w)) = player # rest
        \<and> (\<forall>q. \<not> rejects (store w) q)
        \<and> (\<not> redisClient (redis w) \<or> \<not> redisConnected (redis w) \<or> get_rejects (redis w))"
  then have found: "filter (\<lambda>r. player_id r = i) (player_rows (store w)) = player # rest"
    and ok: "\<forall>q. \<not> rejects (store w) q"
    and miss: "cache_get (redis w) (clock w) (cacheKey i) = Inr None"
    by (auto simp add: cache_get_eq)
  show "fst (getPlayerAnalytics w i) =
          Inr (response_data i player
                 (case agent_analytics_cache (store w) i of
                    Some a \<Rightarrow> a
                  | None \<Rightarrow> derive (clock w) player)
                 (matches (store w) i))"
  proof (cases "agent_analytics_cache (store w) i")
    case None
    then show ?thesis
      using getPlayerAnalytics_derived[OF found _ _ _ _ miss None] ok by simp
  next
    case (Some a)
    then show ?thesis
      using getPlayerAnalytics_durable[OF found _ _ _ miss Some] ok by simp
  qed
qed

theorem c8_fast_cache_never_raises_witness:
  "\<not> redisConnected (redis world_cache_down)
   \<and> cache_get (redis world_cache_down) 3000 (cacheKey ''a'') = Inr None
   \<and> cache_set (redis world_cache_down) 3000 (cacheKey ''a'') old_record 3600
        = (Inr False, redis world_cache_down)
   \<and> filter (\<lambda>r. player_id r = ''a'') (player_rows (store world_cache_down)) = [row_a]
   \<and> (\<forall>q. \<not> rejects (store world_cache_down) q)
   \<and> agent_analytics_cache (store world_cache_down) ''a'' = Some old_record
   \<and> fst (getPlayerAnalytics world_cache_down ''a'')
        = Inr (response_data ''a'' row_a old_record [])"
proof -
  have down: "\<not> redisConnected (redis world_cache_down)"
    by (simp add: example_defs)
  have f: "filter (\<lambda>r. player_id r = ''a'') (player_rows (store world_cache_down)) = [row_a]"
    by (simp add: example_defs found_row_a)
  have ok: "\<forall>q. \<not> rejects (store world_cache_down) q"
    by (simp add: example_defs)
  have d: "agent_analytics_cache (store world_cache_down) ''a'' = Some old_record"
    "matches (store world_cache_down) ''a'' = []"
    by (simp_all add: example_defs)
  show ?thesis
    using c8_fast_cache_never_raises[of "redis world_cache_down" 3000 "cacheKey ''a''"
        old_record 3600 "''a''" world_cache_down row_a "[]"] down f ok d
    by simp
qed

text \<open>
  C2 (amended). On a double miss, when the upsert of the calculated record is
  rejected by the store, \<open>calculatePlayerAnalytics\<close> and with it
  \<open>getPlayerAnalytics\<close> fail with the store's error (status 500 in the error
  handler): no record is returned, the fast cache is not written, the analytics table
  is unchanged and the matches query is not issued.
\<close>

theorem c2_upsert_failure_propagates:
  assumes found: "filter (\<lambda>r. player_id r = i) (player_rows (store w)) = player # rest"
      and ok: "\<not> rejects (store w) (SelectProfile i)" "\<not> rejects (store w) (SelectAnalyticsCache i)"
      and miss: "cache_get (redis w) (clock w) (cacheKey i) = Inr None"
      and norow: "agent_analytics_cache (store w) i = None"
      and bad: "rejects (store w) (UpsertAnalyticsCache i)"
  shows "getPlayerAnalytics w i =
           (Inl QueryError,
            w\<lparr>store := (store w)\<lparr>issued := issued (store w) @
                       [SelectProfile i, SelectAnalyticsCache i, UpsertAnalyticsCache i]\<rparr>\<rparr>)
       \<and> statusCode QueryError = 500
       \<and> fst (calculatePlayerAnalytics w i player) = Inl QueryError"
proof -
  have "fst (calculatePlayerAnalytics w i player) = Inl QueryError"
    using bad by (simp add: calculatePlayerAnalytics_def upsert_analytics_cache_def Let_def)
  then show ?thesis
    using getPlayerAnalytics_upsert_rejected[OF found ok bad miss norow]
    by (simp add: statusCode_def)
qed

theorem c2_upsert_failure_propagates_witness:
  "filter (\<lambda>r. player_id r = ''a'') (player_rows (store world_upsert_fails)) = [row_a]
   \<and> \<not> rejects (store world_upsert_fails) (SelectProfile ''a'')
   \<and> \<not> rejects (store world_upsert_fails) (SelectAnalyticsCache ''a'')
   \<and> cache_get (redis world_upsert_fails) (clock world_upsert_fails) (cacheKey ''a'') = Inr None
   \<and> agent_analytics_cache (store world_upsert_fails) ''a'' = None
   \<and> rejects (store world_upsert_fails) (UpsertAnalyticsCache ''a'')
   \<and> fst (getPlayerAnalytics world_upsert_fails ''a'') = Inl QueryError
   \<and> redis (snd (getPlayerAnalytics world_upsert_fails ''a'')) = redis world_upsert_fails
   \<and> agent_analytics_cache (store (snd (getPlayerAnalytics world_upsert_fails ''a''))) ''a'' = None"
proof -
  have f: "filter (\<lambda>r. player_id r = ''a'') (player_rows (store world_upsert_fails)) = [row_a]"
    by (simp add: example_defs found_row_a)
  have ok: "\<not> rejects (store world_upsert_fails) (SelectProfile ''a'')"
    "\<not> rejects (store world_upsert_fails) (SelectAnalyticsCache ''a'')"
    by (simp_all add: example_defs)
  have miss: "cache_get (redis world_upsert_fails) (clock world_upsert_fails) (cacheKey ''a'') = Inr None"
    by (simp add: example_defs cache_get_eq)
  have norow: "agent_analytics_cache (store world_upsert_fails) ''a'' = None"
    by (simp add: example_defs)
  have bad: "rejects (store world_upsert_fails) (UpsertAnalyticsCache ''a'')"
    by (simp add: example_defs)
  show ?thesis
    using c2_upsert_failure_propagates[OF f ok miss norow bad] f ok miss norow bad
    by simp
qed

text \<open>
  C2 as stated fails: with no fast-cache entry, no row in the analytics table and an
  upsert that the store rejects, the request for player \<open>a\<close> ends in the store's
  error instead of the calculated record.
\<close>

theorem c2_upsert_failure_counterexample:
  "fst (getPlayerAnalytics world_upsert_fails ''a'') = Inl QueryError"
proof -
  have f: "filter (\<lambda>r. player_id r = ''a'') (player_rows (store world_upsert_fails)) = [row_a]"
    by (simp add: example_defs found_row_a)
  have "getPlayerAnalytics world_upsert_fails ''a'' =
           (Inl QueryError,
            world_upsert_fails\<lparr>store := (store world_upsert_fails)\<lparr>issued := issued (store world_upsert_fails) @
                       [SelectProfile ''a'', SelectAnalyticsCache ''a'', UpsertAnalyticsCache ''a'']\<rparr>\<rparr>)"
    by (rule getPlayerAnalytics_upsert_rejected[OF f]) (simp_all add: example_defs cache_get_eq)
  then show ?thesis by simp
qed


section \<open>Claims about comparePlayers\<close>

text \<open>
  C1 (amended). For every call of \<open>comparePlayers\<close> that succeeds, the comparison
  views are in the order in which the store returns the matching rows, one view per
  row; the order of \<open>playerIds\<close> plays no part.
\<close>

theorem c1_compare_store_order:
  assumes "fst (comparePlayers w (IdArray playerIds)) = Inr resp"
  shows "map cv_id (players resp) =
           map player_id (filter (\<lambda>r. player_id r \<in> set playerIds) (player_rows (store w)))"
proof -
  obtain analyticsData where
    "players resp =
       map (format_comparison analyticsData)
         (filter (\<lambda>r. player_id r \<in> set playerIds) (player_rows (store w)))"
    using compare_rows[OF assms] by blast
  then show ?thesis
    by (simp add: cv_id_format_comparison comp_def)
qed

theorem c1_compare_store_order_witness:
  "fst (comparePlayers world_miss (IdArray [''b'', ''a''])) =
     Inr \<lparr> players = [format_comparison [(''a'', None), (''b'', None)] row_a,
                       format_comparison [(''a'', None), (''b'', None)] row_b],
           comparedAt = 1000 \<rparr>
   \<and> map cv_id [format_comparison [(''a'', None), (''b'', None)] row_a,
                 format_comparison [(''a'', None), (''b'', None)] row_b] = [''a'', ''b'']"
  using c1_compare_store_order[OF compare_ab] compare_ab
  by (simp add: example_defs found_row_a)

text \<open>
  C1 as stated fails: the store returns player \<open>a\<close> before player \<open>b\<close>, and comparing
  \<open>[b, a]\<close> yields the views of \<open>a\<close> then \<open>b\<close>, not of \<open>b\<close> then \<open>a\<close>.
\<close>

theorem c1_caller_order_counterexample:
  "map player_id (player_rows (store world_miss)) = [''a'', ''b'']
   \<and> compared_ids (fst (comparePlayers world_miss (IdArray [''b'', ''a'']))) = Some [''a'', ''b'']
   \<and> compared_ids (fst (comparePlayers world_miss (IdArray [''b'', ''a'']))) \<noteq> Some [''b'', ''a'']"
  by (simp add: compare_ab compared_ids_def cv_id_format_comparison found_row_a)
    (simp add: example_defs found_row_a)

text \<open>
  C3. The code at a player without a \<open>player_attributes\<close> row: player \<open>a\<close> has the
  six attributes 70 to 75 and \<open>overall\<close> 73, the rounded mean 72.5; player \<open>b\<close> has
  none of the six and \<open>overall\<close> 0, where the claim asks for \<open>null\<close>.
\<close>

theorem c3_overall_without_attributes:
  "pace row_b = None \<and> shooting row_b = None \<and> passing row_b = None
   \<and> dribbling row_b = None \<and> defending row_b = None \<and> physical row_b = None
   \<and> compared_overalls (fst (comparePlayers world_miss (IdArray [''b'', ''a''])))
        = Some [73, 0]"
  by (simp add: compare_ab compared_overalls_def)
    (simp add: format_comparison_def row_a_def row_b_def sample_row_def js_number_def)

text \<open>
  C4 (amended). \<open>comparePlayers\<close> fails with status 400 when \<open>playerIds\<close> is missing,
  is not an array, or has fewer than 2 or more than 4 entries. When the array has 2
  to 4 entries and the lookup returns fewer than 2 rows, it fails with status 404
  (not 400). For two distinct ids that both have a row, with every query answered,
  it succeeds.
\<close>

theorem c4_compare_cardinality:
  "(length playerIds < 2 \<or> length playerIds > 4 \<longrightarrow>
      comparePlayers w (IdArray playerIds)
        = (Inl (AppError ''Please provide 2-4 player IDs to compare'' 400), w))
   \<and> comparePlayers w Falsy = (Inl (AppError ''Please provide 2-4 player IDs to compare'' 400), w)
   \<and> comparePlayers w NotArray = (Inl (AppError ''Please provide 2-4 player IDs to compare'' 400), w)
   \<and> (2 \<le> length playerIds \<and> length playerIds \<le> 4
        \<and> \<not> rejects (store w) (SelectCompare playerIds)
        \<and> length (filter (\<lambda>r. player_id r \<in> set playerIds) (player_rows (store w))) < 2 \<longrightarrow>
      fst (comparePlayers w (IdArray playerIds))
        = Inl (AppError ''Could not find enough players to compare'' 404))
   \<and> (a \<noteq> b \<and> a \<in> player_id ` set (player_rows (store w)) \<and> b \<in> player_id ` set (player_rows (store w))
        \<and> (\<forall>q. \<not> rejects (store w) q) \<longrightarrow>
      (\<exists>resp. fst (comparePlayers w (IdArray [a, b])) = Inr resp))
   \<and> statusCode (AppError ''Please provide 2-4 player IDs to compare'' 400) = 400
   \<and> statusCode (AppError ''Could not find enough players to compare'' 404) = 404"
proof (intro conjI impI)
  show "comparePlayers w (IdArray playerIds)
        = (Inl (AppError ''Please provide 2-4 player IDs to compare'' 400), w)"
    if "length playerIds < 2 \<or> length playerIds > 4"
    using that by (simp add: comparePlayers_def)
  show "comparePlayers w Falsy = (Inl (AppError ''Please provide 2-4 player IDs to compare'' 400), w)"
    by (simp add: comparePlayers_def)
  show "comparePlayers w NotArray = (Inl (AppError ''Please provide 2-4 player IDs to compare'' 400), w)"
    by (simp add: comparePlayers_def)
  show "fst (comparePlayers w (IdArray playerIds))
        = Inl (AppError ''Could not find enough players to compare'' 404)"
    if "2 \<le> length playerIds \<and> length playerIds \<le> 4
        \<and> \<not> rejects (store w) (SelectCompare playerIds)
        \<and> length (filter (\<lambda>r. player_id r \<in> set playerIds) (player_rows (store w))) < 2"
    using that by (simp add: comparePlayers_def select_compare_def query_def)
  show "statusCode (AppError ''Please provide 2-4 player IDs to compare'' 400) = 400"
    by (simp add: statusCode_def)
  show "statusCode (AppError ''Could not find enough players to compare'' 404) = 404"
    by (simp add: statusCode_def)
next
  assume h: "a \<noteq> b \<and> a \<in> player_id ` set (player_rows (store w)) \<and> b \<in> player_id ` set (player_rows (store w))
        \<and> (\<forall>q. \<not> rejects (store w) q)"
  let ?d = "(store w)\<lparr>issued := issued (store w) @ [SelectCompare [a, b]]\<rparr>"
  have two: "\<not> length (filter (\<lambda>r. player_id r \<in> set [a, b]) (player_rows (store w))) < 2"
    using two_rows_found[of a b "player_rows (store w)"] h by linarith
  have ok: "\<forall>i. \<not> rejects ?d (SelectAnalyticsCache i)"
    using h by simp
  have "\<not> rejects (store w) (SelectCompare [a, b])"
    using h by simp
  then show "\<exists>resp. fst (comparePlayers w (IdArray [a, b])) = Inr resp"
    using two
    by (simp add: comparePlayers_def select_compare_def query_def analyticsPromises_ok[OF ok])
qed

theorem c4_compare_cardinality_witness:
  "length [''a''] < 2
   \<and> fst (comparePlayers world_miss (IdArray [''a'']))
        = Inl (AppError ''Please provide 2-4 player IDs to compare'' 400)
   \<and> 2 \<le> length [''a'', ''a''] \<and> length [''a'', ''a''] \<le> 4
   \<and> \<not> rejects (store world_miss) (SelectCompare [''a'', ''a''])
   \<and> length (filter (\<lambda>r. player_id r \<in> set [''a'', ''a'']) (player_rows (store world_miss))) < 2
   \<and> fst (comparePlayers world_miss (IdArray [''a'', ''a'']))
        = Inl (AppError ''Could not find enough players to compare'' 404)
   \<and> ''a'' \<noteq> ''b'' \<and> ''a'' \<in> player_id ` set (player_rows (store world_miss))
   \<and> ''b'' \<in> player_id ` set (player_rows (store world_miss))
   \<and> (\<forall>q. \<not> rejects (store world_miss) q)
   \<and> (\<exists>resp. fst (comparePlayers world_miss (IdArray [''a'', ''b''])) = Inr resp)"
proof -
  have h1: "\<not> rejects (store world_miss) (SelectCompare [''a'', ''a''])"
    and h2: "length (filter (\<lambda>r. player_id r \<in> set [''a'', ''a'']) (player_rows (store world_miss))) < 2"
    and h3: "''a'' \<in> player_id ` set (player_rows (store world_miss))"
    and h4: "''b'' \<in> player_id ` set (player_rows (store world_miss))"
    and h5: "\<forall>q. \<not> rejects (store world_miss) q"
    by (simp_all add: example_defs found_row_a)
  note A = c4_compare_cardinality[of "[''a'']" world_miss "''a''" "''b''"]
  note B = c4_compare_cardinality[of "[''a'', ''a'']" world_miss "''a''" "''b''"]
  show ?thesis
    using A B h1 h2 h3 h4 h5 by simp
qed

text \<open>
  C4 as stated fails: comparing \<open>[a, a]\<close> finds one row and fails with status 404,
  not with status 400.
\<close>

theorem c4_not_found_counterexample:
  "fst (comparePlayers world_miss (IdArray [''a'', ''a'']))
     = Inl (AppError ''Could not find enough players to compare'' 404)
   \<and> statusCode (AppError ''Could not find enough players to compare'' 404) \<noteq> 400"
  by (simp add: comparePlayers_def select_compare_def query_def statusCode_def)
    (simp add: example_defs found_row_a)


end
